theory Spec2Isabelle
  imports Complex_Main "HOL-Library.Sublist"
begin

section \<open>Exceptions, external objects and the outside world\<close>

text \<open>
  The repository is a thin wrapper over the Playwright library and asyncio. The wrapper's
  own control flow is embedded here; every call that leaves the repository (Playwright,
  \<^verbatim>\<open>tempfile\<close>, \<^verbatim>\<open>os.environ\<close>, the UI manager, \<^verbatim>\<open>asyncio.sleep\<close>) is answered by
  an environment parameter and recorded in a trace of external calls. Logging and
  printing are left out.

  A raised exception is a value. \<open>PyExc\<close> is an instance of \<^verbatim>\<open>Exception\<close>, with its
  class and \<^verbatim>\<open>str(e)\<close>; \<open>OtherError\<close> names any class that is none of the four before
  it nor a subclass of one of them. \<open>CancelledError\<close> is \<^verbatim>\<open>asyncio.CancelledError\<close>, which
  an \<^verbatim>\<open>await\<close> raises when the coroutine is cancelled while it is suspended there: it
  derives from \<^verbatim>\<open>BaseException\<close> only, so no \<^verbatim>\<open>except Exception\<close> of the source
  catches it, and the source never reads its message.
\<close>

datatype exc_class = ValueError | AttributeError | OverflowError | RecursionError
  | OtherError string

datatype py_exception = PyExc exc_class string | CancelledError

text \<open>\<^verbatim>\<open>str(e)\<close>, \<^verbatim>\<open>isinstance(e, Exception)\<close> and \<^verbatim>\<open>isinstance(e, ValueError)\<close>.\<close>

fun exc_msg :: "py_exception \<Rightarrow> string" where
  "exc_msg (PyExc c m) = m"
| "exc_msg CancelledError = []"

fun is_exception :: "py_exception \<Rightarrow> bool" where
  "is_exception (PyExc c m) = True"
| "is_exception CancelledError = False"

fun is_value_error :: "py_exception \<Rightarrow> bool" where
  "is_value_error (PyExc c m) = (c = ValueError)"
| "is_value_error CancelledError = False"

text \<open>\<^verbatim>\<open>needle in haystack\<close> on Python strings.\<close>

fun str_contains :: "string \<Rightarrow> string \<Rightarrow> bool" where
  "str_contains needle [] = (needle = [])"
| "str_contains needle (c # cs) = (prefix needle (c # cs) \<or> str_contains needle cs)"

datatype playwright = Playwright nat

datatype browser_context = BrowserContext nat

record page =
  page_id :: nat
  url :: string
  is_closed :: bool

datatype ext_call =
    StartPlaywright
  | Launch string bool
  | Mkdtemp
  | NewPage browser_context
  | ExposeFunction browser_context string
  | PageOn page string
  | Goto page string
  | Evaluate page string
  | ShowOverlay page
  | NewSystemMessage string
  | NewUserMessage string

text \<open>
  The outside world. Each answer may depend on the moment of the call, which is the
  number of external calls made so far.
\<close>

record env =
  env_storage_dir :: string
  env_start :: "nat \<Rightarrow> py_exception + playwright"
  env_launch :: "nat \<Rightarrow> string \<Rightarrow> bool \<Rightarrow> py_exception + browser_context"
  env_mkdtemp :: "nat \<Rightarrow> py_exception + string"
  env_pages :: "nat \<Rightarrow> browser_context \<Rightarrow> page list"
  env_new_page :: "nat \<Rightarrow> browser_context \<Rightarrow> py_exception + page"
  env_expose_function :: "nat \<Rightarrow> browser_context \<Rightarrow> string \<Rightarrow> py_exception option"
  env_goto :: "nat \<Rightarrow> page \<Rightarrow> string \<Rightarrow> py_exception option"
  env_evaluate :: "nat \<Rightarrow> page \<Rightarrow> string \<Rightarrow> py_exception option"
  env_show_overlay :: "nat \<Rightarrow> page \<Rightarrow> py_exception option"
  env_new_system_message :: "nat \<Rightarrow> string \<Rightarrow> py_exception option"
  env_new_user_message :: "nat \<Rightarrow> string \<Rightarrow> py_exception option"
  env_escape_js_message :: "string \<Rightarrow> string"

text \<open>An outside world in which no call made on behalf of \<open>get_current_page\<close> is cancelled.\<close>

definition no_cancellation :: "env \<Rightarrow> bool" where
  "no_cancellation env \<longleftrightarrow>
     (\<forall>t d h. env_launch env t d h \<noteq> Inl CancelledError) \<and>
     (\<forall>t. env_mkdtemp env t \<noteq> Inl CancelledError) \<and>
     (\<forall>t b. env_new_page env t b \<noteq> Inl CancelledError)"

section \<open>The state of PlaywrightManager\<close>

text \<open>
  Class attributes \<^verbatim>\<open>_playwright\<close> and \<^verbatim>\<open>_browser_context\<close> (both \<^verbatim>\<open>None\<close> at
  class creation), and the trace of external calls.
\<close>

record world =
  cls_playwright :: "playwright option"
  cls_browser_context :: "browser_context option"
  trace :: "ext_call list"

text \<open>
  An \<^verbatim>\<open>asyncio.Event\<close>: its identity and its flag. The instance attributes of an
  initialised manager: \<^verbatim>\<open>ui_manager\<close> exists only when \<^verbatim>\<open>gui_input_mode\<close> was true,
  \<^verbatim>\<open>user_response\<close> only once it has been assigned;
  \<^verbatim>\<open>__async_initialize_done\<close> reads the class attribute \<^verbatim>\<open>False\<close> until the
  instance attribute is assigned.
\<close>

record event =
  ev_id :: nat
  ev_is_set :: bool

record manager =
  browser_type :: string
  isheadless :: bool
  user_response_event :: event
  ui_manager :: "nat option"
  user_response :: "string option"
  async_initialize_done :: bool

type_synonym 'a act = "world \<Rightarrow> (py_exception + 'a) \<times> world"

definition now :: "world \<Rightarrow> nat" where
  "now w = length (trace w)"

definition record_call :: "ext_call \<Rightarrow> world \<Rightarrow> world" where
  "record_call c w = w\<lparr>trace := trace w @ [c]\<rparr>"

definition bind_act :: "'a act \<Rightarrow> ('a \<Rightarrow> 'b act) \<Rightarrow> 'b act" where
  "bind_act m f w = (case m w of (Inl e, w') \<Rightarrow> (Inl e, w') | (Inr x, w') \<Rightarrow> f x w')"

definition of_outcome :: "py_exception option \<Rightarrow> py_exception + unit" where
  "of_outcome r = (case r of None \<Rightarrow> Inr () | Some e \<Rightarrow> Inl e)"

section \<open>Creating the browser context\<close>

definition target_closed :: string where
  "target_closed = ''Target page, context or browser has been closed''"

definition chrome_not_found :: string where
  "chrome_not_found = ''Chromium distribution 'chrome' is not found ''"

definition chrome_not_installed :: string where
  "chrome_not_installed = ''Chrome is not installed on this device. Install Google Chrome or install playwright using 'playwright install chrome'. Refer to the readme for more information.''"

definition none_has_no_chromium :: string where
  "none_has_no_chromium = CHR 0x27 # ''NoneType' object has no attribute 'chromium'' @ [CHR 0x27]"

text \<open>
  \<^verbatim>\<open>PlaywrightManager._playwright.chromium.launch_persistent_context(user_dir, ...)\<close>:
  with \<^verbatim>\<open>_playwright\<close> still \<^verbatim>\<open>None\<close> the attribute access raises before any call
  is made.
\<close>

definition launch_persistent_context :: "env \<Rightarrow> string \<Rightarrow> bool \<Rightarrow> browser_context act" where
  "launch_persistent_context env user_dir headless w =
     (case cls_playwright w of
        None \<Rightarrow> (Inl (PyExc AttributeError none_has_no_chromium), w)
      | Some pw \<Rightarrow> (env_launch env (now w) user_dir headless, record_call (Launch user_dir headless) w))"

definition mkdtemp :: "env \<Rightarrow> string act" where
  "mkdtemp env w = (env_mkdtemp env (now w), record_call Mkdtemp w)"

definition create_browser_context :: "env \<Rightarrow> manager \<Rightarrow> unit act" where
  "create_browser_context env self w =
     (let user_dir = env_storage_dir env in
      if browser_type self = ''chromium'' then
        (case launch_persistent_context env user_dir (isheadless self) w of
           (Inr ctx, w1) \<Rightarrow> (Inr (), w1\<lparr>cls_browser_context := Some ctx\<rparr>)
         | (Inl e, w1) \<Rightarrow>
             if \<not> is_exception e then (Inl e, w1)
             else if str_contains target_closed (exc_msg e) then
               (case mkdtemp env w1 of
                  (Inl e2, w2) \<Rightarrow> (Inl e2, w2)
                | (Inr new_user_dir, w2) \<Rightarrow>
                    (case launch_persistent_context env new_user_dir (isheadless self) w2 of
                       (Inr ctx, w3) \<Rightarrow> (Inr (), w3\<lparr>cls_browser_context := Some ctx\<rparr>)
                     | (Inl e3, w3) \<Rightarrow> (Inl e3, w3)))
             else if str_contains chrome_not_found (exc_msg e) then
               (Inl (PyExc ValueError chrome_not_installed), w1)
             else (Inl e, w1))
      else (Inl (PyExc ValueError (''Unsupported browser type: '' @ browser_type self)), w))"

section \<open>Playwright and the browser context: create once, reuse\<close>

definition start_playwright :: "env \<Rightarrow> unit act" where
  "start_playwright env w =
     (case cls_playwright w of
        Some pw \<Rightarrow> (Inr (), w)
      | None \<Rightarrow>
          (case env_start env (now w) of
             Inl e \<Rightarrow> (Inl e, record_call StartPlaywright w)
           | Inr pw \<Rightarrow> (Inr (), (record_call StartPlaywright w)\<lparr>cls_playwright := Some pw\<rparr>)))"

definition ensure_browser_context :: "env \<Rightarrow> manager \<Rightarrow> unit act" where
  "ensure_browser_context env self w =
     (case cls_browser_context w of
        None \<Rightarrow> create_browser_context env self w
      | Some ctx \<Rightarrow> (Inr (), w))"

definition get_browser_context :: "env \<Rightarrow> manager \<Rightarrow> browser_context option act" where
  "get_browser_context env self =
     bind_act (ensure_browser_context env self) (\<lambda>_ w. (Inr (cls_browser_context w), w))"

section \<open>The current page\<close>

definition none_has_no_attribute :: "string \<Rightarrow> py_exception" where
  "none_has_no_attribute name =
     PyExc AttributeError (CHR 0x27 # ''NoneType' object has no attribute ''
                            @ [CHR 0x27] @ name @ [CHR 0x27])"

text \<open>
  The body of the \<^verbatim>\<open>try\<close> block of \<^verbatim>\<open>get_current_page\<close>: the last page of
  \<^verbatim>\<open>browser.pages\<close> that is not closed, or a new page.
\<close>

definition open_pages :: "env \<Rightarrow> browser_context \<Rightarrow> world \<Rightarrow> page list" where
  "open_pages env browser w = filter (\<lambda>page. \<not> is_closed page) (env_pages env (now w) browser)"

definition current_page_attempt :: "env \<Rightarrow> manager \<Rightarrow> page act" where
  "current_page_attempt env self =
     bind_act (get_browser_context env self) (\<lambda>browser w.
       case browser of
         None \<Rightarrow> (Inl (none_has_no_attribute ''pages''), w)
       | Some b \<Rightarrow>
           (let pages = open_pages env b w in
            if pages \<noteq> [] then (Inr (last pages), w)
            else (env_new_page env (now w) b, record_call (NewPage b) w)))"

text \<open>
  The handler of \<^verbatim>\<open>get_current_page\<close> calls \<^verbatim>\<open>get_current_page\<close> again. The first
  argument bounds the nesting of these calls as the interpreter's recursion limit does: at
  the limit the call raises \<^verbatim>\<open>RecursionError\<close>. The handler is \<^verbatim>\<open>except Exception\<close>: a
  \<^verbatim>\<open>CancelledError\<close> passes it, as it passes the handlers of \<open>create_browser_context\<close>
  and \<open>get_current_url\<close>.
\<close>

fun get_current_page :: "env \<Rightarrow> nat \<Rightarrow> manager \<Rightarrow> page act" where
  "get_current_page env 0 self w =
     (Inl (PyExc RecursionError ''maximum recursion depth exceeded''), w)"
| "get_current_page env (Suc depth) self w =
     (case current_page_attempt env self w of
        (Inr page, w1) \<Rightarrow> (Inr page, w1)
      | (Inl e, w1) \<Rightarrow>
          if \<not> is_exception e then (Inl e, w1)
          else
            (case get_browser_context env self (w1\<lparr>cls_browser_context := None\<rparr>) of
               (Inl e2, w2) \<Rightarrow> (Inl e2, w2)
             | (Inr browser, w2) \<Rightarrow> get_current_page env depth self w2))"

definition get_current_url :: "env \<Rightarrow> nat \<Rightarrow> manager \<Rightarrow> string option act" where
  "get_current_url env depth self w =
     (case get_current_page env depth self w of
        (Inr current_page, w1) \<Rightarrow> (Inr (Some (url current_page)), w1)
      | (Inl e, w1) \<Rightarrow> if is_exception e then (Inr None, w1) else (Inl e, w1))"

section \<open>Asynchronous initialisation\<close>

definition homepage :: string where
  "homepage = ''https://www.google.com''"

definition expose_function :: "env \<Rightarrow> manager \<Rightarrow> string \<Rightarrow> unit act" where
  "expose_function env self name =
     bind_act (get_browser_context env self) (\<lambda>context w.
       case context of
         None \<Rightarrow> (Inl (none_has_no_attribute ''expose_function''), w)
       | Some c \<Rightarrow> (of_outcome (env_expose_function env (now w) c name),
                    record_call (ExposeFunction c name) w))"

definition set_overlay_state_handler :: "env \<Rightarrow> manager \<Rightarrow> unit act" where
  "set_overlay_state_handler env self = expose_function env self ''overlay_state_changed''"

definition set_user_response_handler :: "env \<Rightarrow> manager \<Rightarrow> unit act" where
  "set_user_response_handler env self = expose_function env self ''user_response''"

definition no_ui_manager :: py_exception where
  "no_ui_manager =
     PyExc AttributeError (CHR 0x27 # ''PlaywrightManager' object has no attribute 'ui_manager''
                            @ [CHR 0x27])"

definition set_navigation_handler :: "env \<Rightarrow> nat \<Rightarrow> manager \<Rightarrow> unit act" where
  "set_navigation_handler env depth self =
     bind_act (get_current_page env depth self) (\<lambda>page w.
       case ui_manager self of
         None \<Rightarrow> (Inl no_ui_manager, w)
       | Some ui \<Rightarrow> (Inr (), record_call (PageOn page ''domcontentloaded'') w))"

definition setup_handlers :: "env \<Rightarrow> nat \<Rightarrow> manager \<Rightarrow> unit act" where
  "setup_handlers env depth self =
     bind_act (set_overlay_state_handler env self) (\<lambda>_.
     bind_act (set_user_response_handler env self) (\<lambda>_.
     set_navigation_handler env depth self))"

definition go_to_homepage :: "env \<Rightarrow> nat \<Rightarrow> manager \<Rightarrow> unit act" where
  "go_to_homepage env depth self =
     bind_act (get_current_page env depth self) (\<lambda>page w.
       (of_outcome (env_goto env (now w) page homepage), record_call (Goto page homepage) w))"

definition async_initialize ::
  "env \<Rightarrow> nat \<Rightarrow> manager \<Rightarrow> world \<Rightarrow> (py_exception + unit) \<times> manager \<times> world" where
  "async_initialize env depth self w =
     (if async_initialize_done self then (Inr (), self, w)
      else
        (case bind_act (start_playwright env) (\<lambda>_.
              bind_act (ensure_browser_context env self) (\<lambda>_.
              bind_act (setup_handlers env depth self) (\<lambda>_.
              go_to_homepage env depth self))) w of
           (Inl e, w1) \<Rightarrow> (Inl e, self, w1)
         | (Inr u, w1) \<Rightarrow> (Inr (), self\<lparr>async_initialize_done := True\<rparr>, w1)))"

section \<open>The prompt/response handshake\<close>

definition receive_user_response :: "manager \<Rightarrow> string \<Rightarrow> manager" where
  "receive_user_response self response =
     self\<lparr>user_response := Some response,
          user_response_event := (user_response_event self)\<lparr>ev_is_set := True\<rparr>\<rparr>"

text \<open>
  \<^verbatim>\<open>prompt_user\<close> is a coroutine: it gives up control at each \<^verbatim>\<open>await\<close>, and calls of
  \<^verbatim>\<open>receive_user_response\<close> (which has no \<^verbatim>\<open>await\<close>, so each runs in one piece) can run
  in between. A schedule lists the responses delivered by the calls that run while
  \<^verbatim>\<open>prompt_user\<close> is suspended at each of its four \<^verbatim>\<open>await\<close>s, in order.
  \<^verbatim>\<open>Event.wait()\<close> returns at once when the flag is already set; otherwise the
  coroutine is suspended until a call has set the flag, and \<open>during_wait\<close> lists the calls
  that run before it is resumed (none: it is never resumed).
\<close>

record schedule =
  during_get_current_page :: "string list"
  during_show_overlay :: "string list"
  during_evaluate :: "string list"
  during_wait :: "string list"

definition deliver :: "string list \<Rightarrow> manager \<Rightarrow> manager" where
  "deliver responses self = foldl receive_user_response self responses"

definition no_user_response :: py_exception where
  "no_user_response =
     PyExc AttributeError (CHR 0x27 # ''PlaywrightManager' object has no attribute 'user_response''
                            @ [CHR 0x27])"

text \<open>The statements of \<^verbatim>\<open>prompt_user\<close> after \<^verbatim>\<open>await self.user_response_event.wait()\<close>.\<close>

definition take_response ::
  "env \<Rightarrow> manager \<Rightarrow> world \<Rightarrow> (py_exception + string) \<times> manager \<times> world" where
  "take_response env self w =
     (case user_response self of
        None \<Rightarrow> (Inl no_user_response, self, w)
      | Some result \<Rightarrow>
          (let self1 = self\<lparr>user_response_event := (user_response_event self)\<lparr>ev_is_set := False\<rparr>,
                            user_response := Some []\<rparr>;
               w1 = record_call (NewUserMessage result) w
           in case env_new_user_message env (now w) result of
                Some e \<Rightarrow> (Inl e, self1, w1)
              | None \<Rightarrow> (Inr result, self1, w1)))"

definition wait_and_take ::
  "env \<Rightarrow> string list \<Rightarrow> manager \<Rightarrow> world \<Rightarrow>
     ((py_exception + string) \<times> manager \<times> world) option" where
  "wait_and_take env arriving self w =
     (if ev_is_set (user_response_event self) then Some (take_response env self w)
      else if arriving = [] then None
      else Some (take_response env (deliver arriving self) w))"

definition js_code :: "env \<Rightarrow> string \<Rightarrow> string" where
  "js_code env message =
     ''addSystemMessage('' @ env_escape_js_message env message
       @ '', is_awaiting_user_response=true);''"

definition prompt_user ::
  "env \<Rightarrow> nat \<Rightarrow> schedule \<Rightarrow> string \<Rightarrow> manager \<Rightarrow> world \<Rightarrow>
     ((py_exception + string) \<times> manager \<times> world) option" where
  "prompt_user env depth sch message self w =
     (let self1 = deliver (during_get_current_page sch) self in
      case get_current_page env depth self w of
        (Inl e, w1) \<Rightarrow> Some (Inl e, self1, w1)
      | (Inr page, w1) \<Rightarrow>
          (case ui_manager self1 of
             None \<Rightarrow> Some (Inl no_ui_manager, self1, w1)
           | Some ui \<Rightarrow>
               (let self2 = deliver (during_show_overlay sch) self1;
                    w2 = record_call (ShowOverlay page) w1
                in case env_show_overlay env (now w1) page of
                     Some e \<Rightarrow> Some (Inl e, self2, w2)
                   | None \<Rightarrow>
                       (let w3 = record_call (NewSystemMessage message) w2
                        in case env_new_system_message env (now w2) message of
                             Some e \<Rightarrow> Some (Inl e, self2, w3)
                           | None \<Rightarrow>
                               (let self3 = deliver (during_evaluate sch) self2;
                                    w4 = record_call (Evaluate page (js_code env message)) w3
                                in case env_evaluate env (now w3) page (js_code env message) of
                                     Some e \<Rightarrow> Some (Inl e, self3, w4)
                                   | None \<Rightarrow> wait_and_take env (during_wait sch) self3 w4)))))"




section \<open>The singleton constructor\<close>

text \<open>
  Objects of the class live in a store, by reference. \<^verbatim>\<open>__new__\<close> creates an object
  that carries only \<^verbatim>\<open>__initialized = False\<close>; \<^verbatim>\<open>__init__\<close> gives it its attributes.
  \<^verbatim>\<open>asyncio.Event()\<close> and \<^verbatim>\<open>UIManager()\<close> (a class outside the source, taken to return a
  new object) draw their identities from the same counter.
\<close>

datatype pm_object = Fresh | Initialised manager

record store =
  objs :: "nat \<Rightarrow> pm_object option"
  next_ref :: nat
  cls_instance :: "nat option"

record init_args =
  arg_browser_type :: string
  arg_headless :: bool
  arg_gui_input_mode :: bool

definition pm_new :: "store \<Rightarrow> nat \<times> store" where
  "pm_new st =
     (case cls_instance st of
        None \<Rightarrow>
          (next_ref st,
           st\<lparr>objs := (objs st)(next_ref st \<mapsto> Fresh),
              next_ref := Suc (next_ref st),
              cls_instance := Some (next_ref st)\<rparr>)
      | Some inst \<Rightarrow> (inst, st))"

definition pm_init :: "nat \<Rightarrow> init_args \<Rightarrow> store \<Rightarrow> store" where
  "pm_init self args st =
     (case objs st self of
        Some Fresh \<Rightarrow>
          st\<lparr>objs := (objs st)(self \<mapsto> Initialised
                \<lparr>browser_type = arg_browser_type args,
                 isheadless = arg_headless args,
                 user_response_event = \<lparr>ev_id = next_ref st, ev_is_set = False\<rparr>,
                 ui_manager = (if arg_gui_input_mode args then Some (Suc (next_ref st)) else None),
                 user_response = None,
                 async_initialize_done = False\<rparr>),
             next_ref := (if arg_gui_input_mode args then Suc (Suc (next_ref st))
                          else Suc (next_ref st))\<rparr>
      | _ \<Rightarrow> st)"

definition construct :: "init_args \<Rightarrow> store \<Rightarrow> nat \<times> store" where
  "construct args st = (case pm_new st of (self, st1) \<Rightarrow> (self, pm_init self args st1))"

fun constructions :: "init_args list \<Rightarrow> store \<Rightarrow> nat list \<times> store" where
  "constructions [] st = ([], st)"
| "constructions (args # rest) st =
     (case construct args st of
        (self, st1) \<Rightarrow> (case constructions rest st1 of (refs, st2) \<Rightarrow> (self # refs, st2)))"

definition program_start :: store where
  "program_start = \<lparr>objs = Map.empty, next_ref = 0, cls_instance = None\<rparr>"

section \<open>The timed pause\<close>

text \<open>
  A Python \<^verbatim>\<open>float\<close> is a finite value (\<open>NegZero\<close> is \<^verbatim>\<open>-0.0\<close>, \<open>Finite 0\<close> is
  \<^verbatim>\<open>0.0\<close>), an infinity or NaN; a duration is an \<^verbatim>\<open>int\<close>
  (unbounded) or a \<^verbatim>\<open>float\<close>. \<^verbatim>\<open>float(n)\<close> of an \<^verbatim>\<open>int\<close> rounds to 53 significant
  bits, ties to even, and raises \<^verbatim>\<open>OverflowError\<close> when the rounded value does not fit a
  double.
\<close>

datatype pyfloat = Finite real | NegZero | PosInf | NegInf | NaN

datatype pynum = PyInt int | PyFloat pyfloat

text \<open>\<^verbatim>\<open>int.bit_length()\<close> of a nonnegative \<^verbatim>\<open>int\<close>.\<close>

function bit_length :: "int \<Rightarrow> nat" where
  "bit_length n = (if n \<le> 0 then 0 else Suc (bit_length (n div 2)))"
  by pat_completeness auto
termination
  by (relation "measure nat") auto

declare bit_length.simps [simp del]

definition round_half_even :: "int \<Rightarrow> int" where
  "round_half_even n =
     (let e = bit_length n in
      if e \<le> 53 then n
      else
        (let sh = e - 53; q = n div 2 ^ sh; r = n mod 2 ^ sh; h = 2 ^ (sh - 1)
         in (if h < r \<or> (r = h \<and> odd q) then q + 1 else q) * 2 ^ sh))"

definition int_too_large :: string where
  "int_too_large = ''int too large to convert to float''"

fun py_float :: "pynum \<Rightarrow> py_exception + pyfloat" where
  "py_float (PyFloat x) = Inr x"
| "py_float (PyInt i) =
     (let m = round_half_even \<bar>i\<bar> in
      if 2 ^ 1024 \<le> m then Inl (PyExc OverflowError int_too_large)
      else Inr (Finite (if i < 0 then - real_of_int m else real_of_int m)))"

text \<open>\<^verbatim>\<open>seconds < 0\<close> on a float.\<close>

fun float_lt_zero :: "pyfloat \<Rightarrow> bool" where
  "float_lt_zero (Finite x) = (x < 0)"
| "float_lt_zero NegZero = False"
| "float_lt_zero NegInf = True"
| "float_lt_zero PosInf = False"
| "float_lt_zero NaN = False"

text \<open>\<^verbatim>\<open>duration < 0\<close> and \<^verbatim>\<open>duration >= 0\<close> on a duration.\<close>

fun is_negative :: "pynum \<Rightarrow> bool" where
  "is_negative (PyInt i) = (i < 0)"
| "is_negative (PyFloat x) = float_lt_zero x"

fun is_nonnegative :: "pynum \<Rightarrow> bool" where
  "is_nonnegative (PyInt i) = (0 \<le> i)"
| "is_nonnegative (PyFloat (Finite x)) = (0 \<le> x)"
| "is_nonnegative (PyFloat NegZero) = True"
| "is_nonnegative (PyFloat PosInf) = True"
| "is_nonnegative (PyFloat NegInf) = False"
| "is_nonnegative (PyFloat NaN) = False"

definition negative_duration :: string where
  "negative_duration = ''Duration cannot be negative.''"

definition invalid_duration :: string where
  "invalid_duration = ''Invalid duration. Please provide a valid number of seconds.''"

text \<open>
  The two \<^verbatim>\<open>except\<close> clauses of \<open>pause_flow\<close>, applied to what the \<^verbatim>\<open>try\<close> block
  raises: \<^verbatim>\<open>except ValueError\<close>, then \<^verbatim>\<open>except Exception\<close>; what neither catches
  propagates as it is.
\<close>

fun pause_handler :: "py_exception \<Rightarrow> py_exception" where
  "pause_handler (PyExc c m) =
     (if c = ValueError then
        (if str_contains ''negative'' m then PyExc ValueError negative_duration
         else PyExc ValueError invalid_duration)
      else PyExc ValueError (''Error while pausing: '' @ m))"
| "pause_handler CancelledError = CancelledError"

text \<open>
  \<^verbatim>\<open>asyncio.sleep\<close> and the formatting of a float in an f-string are parameters. The
  result comes with the list of the sleeps performed.
\<close>

definition pause_flow ::
  "(pyfloat \<Rightarrow> py_exception option) \<Rightarrow> (pyfloat \<Rightarrow> string) \<Rightarrow> pynum \<Rightarrow>
     (py_exception + string) \<times> pyfloat list" where
  "pause_flow sleep fmt duration =
     (case py_float duration of
        Inl e \<Rightarrow> (Inl (pause_handler e), [])
      | Inr seconds \<Rightarrow>
          if float_lt_zero seconds then
            (Inl (pause_handler (PyExc ValueError negative_duration)), [])
          else
            (case sleep seconds of
               Some e \<Rightarrow> (Inl (pause_handler e), [seconds])
             | None \<Rightarrow>
                 if seconds = Finite 1 then
                   (Inr (''Paused for '' @ fmt seconds @ '' second.''), [seconds])
                 else (Inr (''Paused for '' @ fmt seconds @ '' seconds.''), [seconds])))"

section \<open>Concrete scenarios\<close>

text \<open>
  An outside world in which every call succeeds, apart from the launches, which a
  parameter answers; the pages of the browser context are a parameter as well.
\<close>

definition scenario_env ::
  "(nat \<Rightarrow> string \<Rightarrow> bool \<Rightarrow> py_exception + browser_context) \<Rightarrow> page list \<Rightarrow> env" where
  "scenario_env launch pages =
     \<lparr>env_storage_dir = ''/data/profile'',
      env_start = (\<lambda>t. Inr (Playwright t)),
      env_launch = launch,
      env_mkdtemp = (\<lambda>t. Inr ''/tmp/tmpabc''),
      env_pages = (\<lambda>t c. pages),
      env_new_page = (\<lambda>t c. Inr \<lparr>page_id = t, url = ''about:blank'', is_closed = False\<rparr>),
      env_expose_function = (\<lambda>t c n. None),
      env_goto = (\<lambda>t p u. None),
      env_evaluate = (\<lambda>t p js. None),
      env_show_overlay = (\<lambda>t p. None),
      env_new_system_message = (\<lambda>t m. None),
      env_new_user_message = (\<lambda>t m. None),
      env_escape_js_message = (\<lambda>m. m)\<rparr>"

definition fail_once :: "string \<Rightarrow> nat \<Rightarrow> string \<Rightarrow> bool \<Rightarrow> py_exception + browser_context" where
  "fail_once msg t d h =
     (if t = 0 then Inl (PyExc (OtherError ''Error'') msg) else Inr (BrowserContext t))"

definition launch_ok :: "nat \<Rightarrow> string \<Rightarrow> bool \<Rightarrow> py_exception + browser_context" where
  "launch_ok t d h = Inr (BrowserContext t)"

definition a_manager :: "string \<Rightarrow> manager" where
  "a_manager bt = \<lparr>browser_type = bt, isheadless = False,
     user_response_event = \<lparr>ev_id = 1, ev_is_set = False\<rparr>, ui_manager = Some 2,
     user_response = None, async_initialize_done = False\<rparr>"

definition not_started :: world where
  "not_started = \<lparr>cls_playwright = None, cls_browser_context = None, trace = []\<rparr>"

definition started :: world where
  "started = \<lparr>cls_playwright = Some (Playwright 0), cls_browser_context = None, trace = []\<rparr>"

definition playwright_started :: world where
  "playwright_started = \<lparr>cls_playwright = Some (Playwright 0), cls_browser_context = None,
     trace = [StartPlaywright]\<rparr>"

definition browsing :: world where
  "browsing = \<lparr>cls_playwright = Some (Playwright 0),
     cls_browser_context = Some (BrowserContext 1),
     trace = [StartPlaywright, Launch ''/data/profile'' False]\<rparr>"

definition tab :: "nat \<Rightarrow> string \<Rightarrow> bool \<Rightarrow> page" where
  "tab n u c = \<lparr>page_id = n, url = u, is_closed = c\<rparr>"

definition one_tab :: "page list" where
  "one_tab = [tab 1 ''about:blank'' False]"

definition three_tabs :: "page list" where
  "three_tabs = [tab 1 ''https://a.example'' False, tab 2 ''https://b.example'' False,
                 tab 3 ''https://c.example'' True]"

definition closed_tabs :: "page list" where
  "closed_tabs = [tab 1 ''https://a.example'' True]"

definition initialised_world :: world where
  "initialised_world = \<lparr>cls_playwright = Some (Playwright 0),
     cls_browser_context = Some (BrowserContext 1),
     trace = [StartPlaywright, Launch ''/data/profile'' False,
              ExposeFunction (BrowserContext 1) ''overlay_state_changed'',
              ExposeFunction (BrowserContext 1) ''user_response'',
              PageOn (tab 1 ''about:blank'' False) ''domcontentloaded'',
              Goto (tab 1 ''about:blank'' False) homepage]\<rparr>"

definition closed_message :: string where
  "closed_message = ''BrowserType.launch_persistent_context: '' @ target_closed"

definition missing_message :: string where
  "missing_message =
     ''BrowserType.launch_persistent_context: '' @ chrome_not_found @ ''at /opt/google/chrome/chrome''"

definition timeout_message :: string where
  "timeout_message = ''BrowserType.launch_persistent_context: Timeout 180000ms exceeded.''"

text \<open>The attributes that the first \<^verbatim>\<open>__init__\<close> gives the object at reference \<open>r\<close>.\<close>

definition first_manager :: "init_args \<Rightarrow> nat \<Rightarrow> manager" where
  "first_manager args r =
     \<lparr>browser_type = arg_browser_type args,
      isheadless = arg_headless args,
      user_response_event = \<lparr>ev_id = Suc r, ev_is_set = False\<rparr>,
      ui_manager = (if arg_gui_input_mode args then Some (Suc (Suc r)) else None),
      user_response = None,
      async_initialize_done = False\<rparr>"

definition chromium_args :: init_args where
  "chromium_args =
     \<lparr>arg_browser_type = ''chromium'', arg_headless = False, arg_gui_input_mode = True\<rparr>"

definition firefox_args :: init_args where
  "firefox_args =
     \<lparr>arg_browser_type = ''firefox'', arg_headless = True, arg_gui_input_mode = False\<rparr>"

definition constructed :: store where
  "constructed = snd (construct chromium_args program_start)"

text \<open>Schedules: no response at all, one response, two responses in a row.\<close>

definition quiet :: schedule where
  "quiet = \<lparr>during_get_current_page = [], during_show_overlay = [], during_evaluate = [],
     during_wait = []\<rparr>"

definition one_answer :: schedule where
  "one_answer = quiet\<lparr>during_wait := [''yes'']\<rparr>"



definition prompted_world :: "string \<Rightarrow> world" where
  "prompted_world answer = \<lparr>cls_playwright = Some (Playwright 0),
     cls_browser_context = Some (BrowserContext 1),
     trace = [StartPlaywright, Launch ''/data/profile'' False,
              ShowOverlay (tab 1 ''about:blank'' False),
              NewSystemMessage ''Proceed?'',
              Evaluate (tab 1 ''about:blank'' False)
                ''addSystemMessage(Proceed?, is_awaiting_user_response=true);'',
              NewUserMessage answer]\<rparr>"

definition idle_manager :: manager where
  "idle_manager = (a_manager ''chromium'')\<lparr>user_response := Some []\<rparr>"

text \<open>A manager built without \<^verbatim>\<open>gui_input_mode\<close> that holds a response nobody has taken.\<close>

definition unattended_manager :: manager where
  "unattended_manager =
     receive_user_response ((a_manager ''chromium'')\<lparr>ui_manager := None\<rparr>) ''stale''"

text \<open>A sleep that completes, and a stand-in for the text of a float.\<close>

definition sleep_completes :: "pyfloat \<Rightarrow> py_exception option" where
  "sleep_completes seconds = None"

definition float_text :: "pyfloat \<Rightarrow> string" where
  "float_text seconds =
     (if seconds = Finite 1 then ''1.0'' else if seconds = Finite 5 then ''5.0''
      else if seconds = Finite (1 / 2) then ''0.5'' else ''?'')"

text \<open>A launch that is cancelled; a sleep that fails; a sleep that is cancelled.\<close>

definition cancelled_launch :: "nat \<Rightarrow> string \<Rightarrow> bool \<Rightarrow> py_exception + browser_context" where
  "cancelled_launch t d h = Inl CancelledError"



section \<open>Sequencing\<close>

lemma bind_act_Inr: "m w = (Inr x, w') \<Longrightarrow> bind_act m f w = f x w'"
  by (simp add: bind_act_def)

lemma bind_act_Inl: "m w = (Inl e, w') \<Longrightarrow> bind_act m f w = (Inl e, w')"
  by (simp add: bind_act_def)

section \<open>Unsupported browser types\<close>

text \<open>
  C8. For every \<open>browser_type\<close> other than \<^verbatim>\<open>"chromium"\<close>, \<open>create_browser_context\<close>
  raises a \<^verbatim>\<open>ValueError\<close> that reports the unsupported browser type, and the state is
  as before: no browser context is created and no launch is attempted.
\<close>

theorem unsupported_browser_type:
  "browser_type self \<noteq> ''chromium'' \<Longrightarrow>
     create_browser_context env self w =
       (Inl (PyExc ValueError (''Unsupported browser type: '' @ browser_type self)), w)"
  by (simp add: create_browser_context_def)

theorem unsupported_browser_type_witness:
  "browser_type (a_manager ''firefox'') \<noteq> ''chromium'' \<and>
   create_browser_context (scenario_env launch_ok one_tab) (a_manager ''firefox'') started =
     (Inl (PyExc ValueError ''Unsupported browser type: firefox''), started)"
  using unsupported_browser_type
    [of "a_manager ''firefox''" "scenario_env launch_ok one_tab" started]
  by (simp add: a_manager_def)

section \<open>Retrying the launch\<close>

text \<open>
  C3. When the first \<open>launch_persistent_context\<close> call of \<open>create_browser_context\<close> raises
  an exception \<open>e\<close>:
  if the message of \<open>e\<close> contains \<^verbatim>\<open>"Target page, context or browser has been closed"\<close>,
  a temporary directory is created and the launch is made once more, with that directory
  in place of the configured one; its outcome is the outcome of the operation, so there
  are exactly two launches;
  otherwise, if the message says that the \<^verbatim>\<open>chrome\<close> distribution is not found, a
  \<^verbatim>\<open>ValueError\<close> is raised after the one launch;
  otherwise \<open>e\<close> itself propagates after the one launch.
\<close>

theorem create_browser_context_retry:
  assumes "browser_type self = ''chromium''"
    and "cls_playwright w = Some pw"
    and "env_launch env (now w) (env_storage_dir env) (isheadless self) = Inl e"
  shows "(str_contains target_closed (exc_msg e) \<longrightarrow>
            env_mkdtemp env (Suc (now w)) = Inr d \<longrightarrow>
            create_browser_context env self w =
              (case env_launch env (Suc (Suc (now w))) d (isheadless self) of
                 Inr ctx \<Rightarrow>
                   (Inr (), w\<lparr>cls_browser_context := Some ctx,
                      trace := trace w @ [Launch (env_storage_dir env) (isheadless self),
                                          Mkdtemp, Launch d (isheadless self)]\<rparr>)
               | Inl e3 \<Rightarrow>
                   (Inl e3, w\<lparr>trace := trace w @ [Launch (env_storage_dir env) (isheadless self),
                                          Mkdtemp, Launch d (isheadless self)]\<rparr>))) \<and>
         (\<not> str_contains target_closed (exc_msg e) \<longrightarrow>
            str_contains chrome_not_found (exc_msg e) \<longrightarrow>
            create_browser_context env self w =
              (Inl (PyExc ValueError chrome_not_installed),
               w\<lparr>trace := trace w @ [Launch (env_storage_dir env) (isheadless self)]\<rparr>)) \<and>
         (\<not> str_contains target_closed (exc_msg e) \<longrightarrow>
            \<not> str_contains chrome_not_found (exc_msg e) \<longrightarrow>
            create_browser_context env self w =
              (Inl e, w\<lparr>trace := trace w @ [Launch (env_storage_dir env) (isheadless self)]\<rparr>))"
proof (cases e)
  case (PyExc c m)
  with assms show ?thesis
    by (simp add: create_browser_context_def launch_persistent_context_def mkdtemp_def
        record_call_def now_def split: sum.splits)
next
  case CancelledError
  moreover have "\<not> str_contains target_closed []" "\<not> str_contains chrome_not_found []"
    by (simp_all add: target_closed_def chrome_not_found_def)
  ultimately show ?thesis using assms
    by (simp add: create_browser_context_def launch_persistent_context_def record_call_def)
qed

lemma closed_message_contains: "str_contains target_closed closed_message"
  by (simp add: closed_message_def target_closed_def)

lemma missing_message_contains:
  "\<not> str_contains target_closed missing_message \<and> str_contains chrome_not_found missing_message"
  by code_simp

lemma timeout_message_contains:
  "\<not> str_contains target_closed timeout_message \<and> \<not> str_contains chrome_not_found timeout_message"
  by code_simp

theorem create_browser_context_retry_witness:
  "create_browser_context (scenario_env (fail_once closed_message) one_tab)
       (a_manager ''chromium'') started =
     (Inr (), started\<lparr>cls_browser_context := Some (BrowserContext 2),
                trace := [Launch ''/data/profile'' False, Mkdtemp, Launch ''/tmp/tmpabc'' False]\<rparr>) \<and>
   create_browser_context (scenario_env (fail_once missing_message) one_tab)
       (a_manager ''chromium'') started =
     (Inl (PyExc ValueError chrome_not_installed),
      started\<lparr>trace := [Launch ''/data/profile'' False]\<rparr>) \<and>
   create_browser_context (scenario_env (fail_once timeout_message) one_tab)
       (a_manager ''chromium'') started =
     (Inl (PyExc (OtherError ''Error'') timeout_message),
      started\<lparr>trace := [Launch ''/data/profile'' False]\<rparr>)"
proof -
  have chromium: "browser_type (a_manager ''chromium'') = ''chromium''"
    by (simp add: a_manager_def)
  have pw: "cls_playwright started = Some (Playwright 0)"
    by (simp add: started_def)
  have first: "env_launch (scenario_env (fail_once msg) one_tab) (now started)
      (env_storage_dir (scenario_env (fail_once msg) one_tab))
      (isheadless (a_manager ''chromium'')) = Inl (PyExc (OtherError ''Error'') msg)" for msg
    by (simp add: scenario_env_def fail_once_def now_def started_def)
  have tmp: "env_mkdtemp (scenario_env (fail_once closed_message) one_tab) (Suc (now started)) =
      Inr ''/tmp/tmpabc''"
    by (simp add: scenario_env_def)
  from create_browser_context_retry [where d = "''/tmp/tmpabc''", OF chromium pw first,
      THEN conjunct1] closed_message_contains tmp
  have a: "create_browser_context (scenario_env (fail_once closed_message) one_tab)
       (a_manager ''chromium'') started =
     (Inr (), started\<lparr>cls_browser_context := Some (BrowserContext 2),
                trace := [Launch ''/data/profile'' False, Mkdtemp, Launch ''/tmp/tmpabc'' False]\<rparr>)"
    by (simp add: scenario_env_def fail_once_def now_def started_def a_manager_def)
  from create_browser_context_retry [OF chromium pw first, THEN conjunct2, THEN conjunct1]
    missing_message_contains
  have b: "create_browser_context (scenario_env (fail_once missing_message) one_tab)
       (a_manager ''chromium'') started =
     (Inl (PyExc ValueError chrome_not_installed),
      started\<lparr>trace := [Launch ''/data/profile'' False]\<rparr>)"
    by (simp add: scenario_env_def started_def a_manager_def)
  from create_browser_context_retry [OF chromium pw first, THEN conjunct2, THEN conjunct2]
    timeout_message_contains
  have c: "create_browser_context (scenario_env (fail_once timeout_message) one_tab)
       (a_manager ''chromium'') started =
     (Inl (PyExc (OtherError ''Error'') timeout_message),
      started\<lparr>trace := [Launch ''/data/profile'' False]\<rparr>)"
    by (simp add: scenario_env_def started_def a_manager_def)
  from a b c show ?thesis by simp
qed

section \<open>The active tab\<close>

lemma last_filter_decomp:
  "filter P xs \<noteq> [] \<Longrightarrow>
     \<exists>before after. xs = before @ last (filter P xs) # after \<and> P (last (filter P xs))
        \<and> (\<forall>q \<in> set after. \<not> P q)"
proof (induction xs rule: rev_induct)
  case Nil
  then show ?case by simp
next
  case (snoc x xs)
  show ?case
  proof (cases "P x")
    case True
    then show ?thesis by (intro exI [of _ xs] exI [of _ "[]"]) simp
  next
    case False
    then have eq: "filter P (xs @ [x]) = filter P xs" by simp
    with snoc.prems have "filter P xs \<noteq> []" by simp
    from snoc.IH [OF this] obtain before after where
      "xs = before @ last (filter P xs) # after" "P (last (filter P xs))" "\<forall>q \<in> set after. \<not> P q"
      by blast
    then show ?thesis using False eq
      by (intro exI [of _ before] exI [of _ "after @ [x]"]) simp
  qed
qed

lemma get_browser_context_existing:
  "cls_browser_context w = Some b \<Longrightarrow> get_browser_context env self w = (Inr (Some b), w)"
  by (simp add: get_browser_context_def ensure_browser_context_def bind_act_def)

text \<open>
  C6. Let \<open>b\<close> be the browser context that \<open>get_browser_context\<close> hands to
  \<open>get_current_page\<close>. If \<open>b.pages\<close> has a page that is not closed, \<open>get_current_page\<close>
  returns the last such page: every page after it in \<open>b.pages\<close> is closed, and nothing
  else happens. If it has none and \<open>new_page\<close> on \<open>b\<close> gives a page, that page is
  returned, after the one \<open>new_page\<close> call on \<open>b\<close>.
\<close>

theorem get_current_page_tracks_active_tab:
  assumes "get_browser_context env self w = (Inr (Some b), w1)"
  shows "(open_pages env b w1 \<noteq> [] \<longrightarrow>
            get_current_page env (Suc depth) self w = (Inr (last (open_pages env b w1)), w1) \<and>
            (\<exists>before after.
               env_pages env (now w1) b = before @ last (open_pages env b w1) # after \<and>
               \<not> is_closed (last (open_pages env b w1)) \<and>
               (\<forall>q \<in> set after. is_closed q))) \<and>
         (open_pages env b w1 = [] \<longrightarrow> env_new_page env (now w1) b = Inr p \<longrightarrow>
            get_current_page env (Suc depth) self w = (Inr p, record_call (NewPage b) w1))"
proof (intro conjI impI)
  assume ne: "open_pages env b w1 \<noteq> []"
  have "current_page_attempt env self w = (Inr (last (open_pages env b w1)), w1)"
    using assms ne by (simp add: current_page_attempt_def bind_act_Inr)
  then show "get_current_page env (Suc depth) self w = (Inr (last (open_pages env b w1)), w1)"
    by simp
  from ne last_filter_decomp [of "\<lambda>page. \<not> is_closed page" "env_pages env (now w1) b"]
  show "\<exists>before after.
          env_pages env (now w1) b = before @ last (open_pages env b w1) # after \<and>
          \<not> is_closed (last (open_pages env b w1)) \<and> (\<forall>q \<in> set after. is_closed q)"
    by (simp add: open_pages_def)
next
  assume "open_pages env b w1 = []" and "env_new_page env (now w1) b = Inr p"
  then have "current_page_attempt env self w = (Inr p, record_call (NewPage b) w1)"
    using assms by (simp add: current_page_attempt_def bind_act_Inr)
  then show "get_current_page env (Suc depth) self w = (Inr p, record_call (NewPage b) w1)"
    by simp
qed

theorem get_current_page_tracks_active_tab_witness:
  "get_current_page (scenario_env launch_ok three_tabs) 1 (a_manager ''chromium'') browsing =
     (Inr (tab 2 ''https://b.example'' False), browsing) \<and>
   get_current_page (scenario_env launch_ok closed_tabs) 1 (a_manager ''chromium'') browsing =
     (Inr \<lparr>page_id = 2, url = ''about:blank'', is_closed = False\<rparr>,
      record_call (NewPage (BrowserContext 1)) browsing)"
proof -
  have ctx: "get_browser_context (scenario_env launch_ok ps) (a_manager ''chromium'') browsing =
      (Inr (Some (BrowserContext 1)), browsing)" for ps
    by (rule get_browser_context_existing) (simp add: browsing_def)
  have o3: "open_pages (scenario_env launch_ok three_tabs) (BrowserContext 1) browsing =
      [tab 1 ''https://a.example'' False, tab 2 ''https://b.example'' False]"
    by (simp add: open_pages_def scenario_env_def three_tabs_def tab_def)
  have o1: "open_pages (scenario_env launch_ok closed_tabs) (BrowserContext 1) browsing = []"
    by (simp add: open_pages_def scenario_env_def closed_tabs_def tab_def)
  have n: "env_new_page (scenario_env launch_ok closed_tabs) (now browsing) (BrowserContext 1) =
      Inr \<lparr>page_id = 2, url = ''about:blank'', is_closed = False\<rparr>"
    by (simp add: scenario_env_def now_def browsing_def)
  from get_current_page_tracks_active_tab [where depth = 0, OF ctx [of three_tabs]] o3
  have a: "get_current_page (scenario_env launch_ok three_tabs) 1 (a_manager ''chromium'') browsing =
     (Inr (tab 2 ''https://b.example'' False), browsing)"
    by simp
  from get_current_page_tracks_active_tab [where depth = 0, OF ctx [of closed_tabs]] o1 n
  have b: "get_current_page (scenario_env launch_ok closed_tabs) 1 (a_manager ''chromium'') browsing =
     (Inr \<lparr>page_id = 2, url = ''about:blank'', is_closed = False\<rparr>,
      record_call (NewPage (BrowserContext 1)) browsing)"
    by simp
  from a b show ?thesis by simp
qed

section \<open>The current URL\<close>

lemma is_exception_iff: "is_exception e \<longleftrightarrow> e \<noteq> CancelledError"
  by (cases e) simp_all

lemma launch_not_cancelled:
  "no_cancellation env \<Longrightarrow> launch_persistent_context env d h w = (Inl e, w') \<Longrightarrow>
     is_exception e"
  by (auto simp: launch_persistent_context_def no_cancellation_def is_exception_iff
      split: option.splits)

lemma create_browser_context_not_cancelled:
  assumes "no_cancellation env" and "create_browser_context env self w = (Inl e, w')"
  shows "is_exception e"
proof (cases "browser_type self = ''chromium''")
  case False
  with assms(2) show ?thesis by (auto simp: create_browser_context_def)
next
  case True
  obtain r w1 where l: "launch_persistent_context env (env_storage_dir env) (isheadless self) w =
      (r, w1)" by (cases "launch_persistent_context env (env_storage_dir env) (isheadless self) w")
  show ?thesis
  proof (cases r)
    case (Inr ctx)
    with assms(2) True l show ?thesis by (simp add: create_browser_context_def)
  next
    case (Inl e1)
    with l assms(1) have e1: "is_exception e1" by (auto dest: launch_not_cancelled)
    show ?thesis
    proof (cases "str_contains target_closed (exc_msg e1)")
      case False
      with assms(2) True l Inl e1 show ?thesis
        by (auto simp: create_browser_context_def split: if_splits)
    next
      case retry: True
      obtain r2 w2 where m: "mkdtemp env w1 = (r2, w2)" by (cases "mkdtemp env w1")
      show ?thesis
      proof (cases r2)
        case e2: (Inl e2)
        with m assms(1) have "is_exception e2"
          by (auto simp: mkdtemp_def no_cancellation_def is_exception_iff)
        with assms(2) True l Inl e1 retry m e2 show ?thesis
          by (simp add: create_browser_context_def)
      next
        case d: (Inr new_user_dir)
        obtain r3 w3 where l3: "launch_persistent_context env new_user_dir (isheadless self) w2 =
            (r3, w3)" by (cases "launch_persistent_context env new_user_dir (isheadless self) w2")
        show ?thesis
        proof (cases r3)
          case (Inr ctx)
          with assms(2) True l Inl e1 retry m d l3 show ?thesis
            by (simp add: create_browser_context_def)
        next
          case e3: (Inl e3)
          with l3 assms(1) have "is_exception e3" by (auto dest: launch_not_cancelled)
          with assms(2) True l Inl e1 retry m d l3 e3 show ?thesis
            by (simp add: create_browser_context_def)
        qed
      qed
    qed
  qed
qed

lemma get_browser_context_not_cancelled:
  "no_cancellation env \<Longrightarrow> get_browser_context env self w = (Inl e, w') \<Longrightarrow> is_exception e"
  by (auto simp: get_browser_context_def ensure_browser_context_def bind_act_def
      split: option.splits prod.splits sum.splits dest: create_browser_context_not_cancelled)

lemma current_page_attempt_not_cancelled:
  assumes "no_cancellation env" and "current_page_attempt env self w = (Inl e, w')"
  shows "is_exception e"
proof -
  obtain r w1 where g: "get_browser_context env self w = (r, w1)"
    by (cases "get_browser_context env self w")
  show ?thesis
  proof (cases r)
    case (Inl e1)
    with g assms(2) have "e = e1" by (simp add: current_page_attempt_def bind_act_def)
    with g Inl assms(1) show ?thesis by (auto dest: get_browser_context_not_cancelled)
  next
    case (Inr browser)
    show ?thesis
    proof (cases browser)
      case None
      with g Inr assms(2) show ?thesis
        by (auto simp: current_page_attempt_def bind_act_def none_has_no_attribute_def)
    next
      case (Some b)
      with g Inr assms(2) have "env_new_page env (now w1) b = Inl e"
        by (auto simp: current_page_attempt_def bind_act_def Let_def split: if_splits)
      with assms(1) show ?thesis by (auto simp: no_cancellation_def is_exception_iff)
    qed
  qed
qed

lemma get_current_page_not_cancelled:
  "no_cancellation env \<Longrightarrow> get_current_page env depth self w = (Inl e, w') \<Longrightarrow> is_exception e"
proof (induction depth arbitrary: w)
  case 0
  then show ?case by auto
next
  case (Suc depth)
  then show ?case
    by (auto split: prod.splits sum.splits if_splits
        dest: get_browser_context_not_cancelled current_page_attempt_not_cancelled)
qed

text \<open>
  C10, as stated, fails. \<open>get_current_url\<close> is called with no browser context; the launch
  that \<open>get_current_page\<close> awaits is cancelled; the \<^verbatim>\<open>CancelledError\<close> is not an instance of
  \<^verbatim>\<open>Exception\<close>, no handler on its way catches it, and it propagates out of
  \<open>get_current_url\<close>.
\<close>

theorem get_current_url_cancelled:
  "get_current_url (scenario_env cancelled_launch one_tab) 1 (a_manager ''chromium'') started =
     (Inl CancelledError, started\<lparr>trace := [Launch ''/data/profile'' False]\<rparr>)"
  by code_simp

text \<open>
  C10, amended. \<open>get_current_url\<close> never propagates an instance of \<^verbatim>\<open>Exception\<close>: the only
  exception it raises is the \<^verbatim>\<open>CancelledError\<close> that \<open>get_current_page\<close> raised. In an
  outside world that cancels no call it returns a value in every state: the URL of the
  page that \<open>get_current_page\<close> returned, or \<^verbatim>\<open>None\<close> when \<open>get_current_page\<close> raised, and
  the error branch yields only \<^verbatim>\<open>None\<close>.
\<close>

theorem get_current_url_never_raises:
  "(get_current_url env depth self w = (Inl e, w1) \<longrightarrow>
      e = CancelledError \<and> get_current_page env depth self w = (Inl CancelledError, w1)) \<and>
   (no_cancellation env \<longrightarrow>
      get_current_url env depth self w =
        (Inr (case fst (get_current_page env depth self w) of
                Inl e2 \<Rightarrow> None | Inr current_page \<Rightarrow> Some (url current_page)),
         snd (get_current_page env depth self w))) \<and>
   (get_current_page env depth self w = (Inl e3, w3) \<longrightarrow> is_exception e3 \<longrightarrow>
      get_current_url env depth self w = (Inr None, w3))"
proof (intro conjI impI)
  assume raised: "get_current_url env depth self w = (Inl e, w1)"
  then show "e = CancelledError"
    by (auto simp: get_current_url_def is_exception_iff split: prod.splits sum.splits if_splits)
  with raised show "get_current_page env depth self w = (Inl CancelledError, w1)"
    by (auto simp: get_current_url_def split: prod.splits sum.splits if_splits)
next
  assume quiet: "no_cancellation env"
  obtain r w2 where p: "get_current_page env depth self w = (r, w2)"
    by (cases "get_current_page env depth self w")
  show "get_current_url env depth self w =
        (Inr (case fst (get_current_page env depth self w) of
                Inl e2 \<Rightarrow> None | Inr current_page \<Rightarrow> Some (url current_page)),
         snd (get_current_page env depth self w))"
  proof (cases r)
    case (Inl e2)
    with p quiet have "is_exception e2" by (auto dest: get_current_page_not_cancelled)
    with p Inl show ?thesis by (simp add: get_current_url_def)
  next
    case (Inr current_page)
    with p show ?thesis by (simp add: get_current_url_def)
  qed
next
  assume "get_current_page env depth self w = (Inl e3, w3)" and "is_exception e3"
  then show "get_current_url env depth self w = (Inr None, w3)"
    by (simp add: get_current_url_def)
qed

lemma cancelled_launch_run:
  "get_current_url (scenario_env cancelled_launch one_tab) 1 (a_manager ''chromium'') started =
     (Inl CancelledError, started\<lparr>trace := [Launch ''/data/profile'' False]\<rparr>)"
  by code_simp

lemma scenario_no_cancellation: "no_cancellation (scenario_env launch_ok ps)"
  by (simp add: no_cancellation_def scenario_env_def launch_ok_def)

lemma get_current_page_unsupported:
  "get_current_page (scenario_env launch_ok one_tab) 1 (a_manager ''firefox'') started =
     (Inl (PyExc ValueError ''Unsupported browser type: firefox''), started)"
  by code_simp

lemma get_current_page_second_tab:
  "get_current_page (scenario_env launch_ok three_tabs) 1 (a_manager ''chromium'') browsing =
     (Inr (tab 2 ''https://b.example'' False), browsing)"
  by code_simp

theorem get_current_url_never_raises_witness:
  "get_current_url (scenario_env launch_ok one_tab) 1 (a_manager ''firefox'') started =
     (Inr None, started) \<and>
   get_current_url (scenario_env launch_ok three_tabs) 1 (a_manager ''chromium'') browsing =
     (Inr (Some ''https://b.example''), browsing) \<and>
   get_current_page (scenario_env cancelled_launch one_tab) 1 (a_manager ''chromium'') started =
     (Inl CancelledError, started\<lparr>trace := [Launch ''/data/profile'' False]\<rparr>)"
proof -
  from get_current_url_never_raises
      [of "scenario_env launch_ok one_tab" 1 "a_manager ''firefox''" started,
       THEN conjunct2, THEN conjunct1] scenario_no_cancellation
  have a: "get_current_url (scenario_env launch_ok one_tab) 1 (a_manager ''firefox'') started =
     (Inr None, started)"
    unfolding get_current_page_unsupported by simp
  from get_current_url_never_raises
      [of "scenario_env launch_ok one_tab" 1 "a_manager ''firefox''" started _ _
         "PyExc ValueError ''Unsupported browser type: firefox''" started,
       THEN conjunct2, THEN conjunct2] get_current_page_unsupported
  have a': "get_current_url (scenario_env launch_ok one_tab) 1 (a_manager ''firefox'') started =
     (Inr None, started)"
    by simp
  from get_current_url_never_raises
      [of "scenario_env launch_ok three_tabs" 1 "a_manager ''chromium''" browsing,
       THEN conjunct2, THEN conjunct1] scenario_no_cancellation
  have b: "get_current_url (scenario_env launch_ok three_tabs) 1 (a_manager ''chromium'')
      browsing = (Inr (Some ''https://b.example''), browsing)"
    unfolding get_current_page_second_tab by (simp add: tab_def)
  from get_current_url_never_raises
      [of "scenario_env cancelled_launch one_tab" 1 "a_manager ''chromium''" started
         CancelledError "started\<lparr>trace := [Launch ''/data/profile'' False]\<rparr>",
       THEN conjunct1] cancelled_launch_run
  have c: "get_current_page (scenario_env cancelled_launch one_tab) 1 (a_manager ''chromium'')
      started = (Inl CancelledError, started\<lparr>trace := [Launch ''/data/profile'' False]\<rparr>)"
    by simp
  from a a' b c show ?thesis by simp
qed

section \<open>Create once, reuse\<close>

lemma create_browser_context_creates:
  "create_browser_context env self w = (Inr u, w1) \<Longrightarrow> cls_browser_context w1 \<noteq> None"
  by (auto simp: create_browser_context_def launch_persistent_context_def mkdtemp_def Let_def
      split: if_splits option.splits sum.splits prod.splits)

lemma start_playwright_started:
  "start_playwright env w = (Inr u, w1) \<Longrightarrow> cls_playwright w1 \<noteq> None"
  by (auto simp: start_playwright_def split: option.splits sum.splits)

lemma ensure_browser_context_ensures:
  "ensure_browser_context env self w = (Inr u, w1) \<Longrightarrow> cls_browser_context w1 \<noteq> None"
  by (auto simp: ensure_browser_context_def split: option.splits
      dest: create_browser_context_creates)

lemma async_initialize_marks_done:
  "async_initialize env depth self w = (Inr u, self1, w1) \<Longrightarrow> async_initialize_done self1"
  by (auto simp: async_initialize_def split: if_splits prod.splits sum.splits)

text \<open>
  C4. \<open>start_playwright\<close>, \<open>ensure_browser_context\<close> and \<open>async_initialize\<close> are
  idempotent. When the Playwright instance exists, the browser context exists, or the
  asynchronous initialisation is done, the call returns at once: the state is as before,
  and so is the trace of external calls, so nothing is created. Hence a second run after
  a run that returned changes nothing, whatever the outside world would answer.
\<close>

theorem lifecycle_create_once:
  "(cls_playwright w \<noteq> None \<longrightarrow> start_playwright env w = (Inr (), w)) \<and>
   (cls_browser_context w \<noteq> None \<longrightarrow> ensure_browser_context env self w = (Inr (), w)) \<and>
   (async_initialize_done self \<longrightarrow> async_initialize env depth self w = (Inr (), self, w)) \<and>
   (start_playwright env w = (Inr u, w1) \<longrightarrow> start_playwright env2 w1 = (Inr (), w1)) \<and>
   (ensure_browser_context env self w = (Inr u, w1) \<longrightarrow>
      ensure_browser_context env2 self w1 = (Inr (), w1)) \<and>
   (async_initialize env depth self w = (Inr u, self1, w1) \<longrightarrow>
      async_initialize env2 depth2 self1 w1 = (Inr (), self1, w1))"
proof (intro conjI impI)
  show "start_playwright env w = (Inr (), w)" if "cls_playwright w \<noteq> None"
    using that by (auto simp: start_playwright_def)
  show "ensure_browser_context env self w = (Inr (), w)" if "cls_browser_context w \<noteq> None"
    using that by (auto simp: ensure_browser_context_def)
  show "async_initialize env depth self w = (Inr (), self, w)" if "async_initialize_done self"
    using that by (simp add: async_initialize_def)
  show "start_playwright env2 w1 = (Inr (), w1)" if "start_playwright env w = (Inr u, w1)"
    using start_playwright_started [OF that] by (auto simp: start_playwright_def)
  show "ensure_browser_context env2 self w1 = (Inr (), w1)"
    if "ensure_browser_context env self w = (Inr u, w1)"
    using ensure_browser_context_ensures [OF that] by (auto simp: ensure_browser_context_def)
  show "async_initialize env2 depth2 self1 w1 = (Inr (), self1, w1)"
    if "async_initialize env depth self w = (Inr u, self1, w1)"
    using async_initialize_marks_done [OF that] by (simp add: async_initialize_def)
qed

lemma start_playwright_run:
  "start_playwright (scenario_env launch_ok one_tab) not_started = (Inr (), playwright_started)"
  by code_simp

lemma ensure_browser_context_run:
  "ensure_browser_context (scenario_env launch_ok one_tab) (a_manager ''chromium'')
     playwright_started = (Inr (), browsing)"
  by code_simp

lemma async_initialize_run:
  "async_initialize (scenario_env launch_ok one_tab) 1 (a_manager ''chromium'') not_started =
     (Inr (), (a_manager ''chromium'')\<lparr>async_initialize_done := True\<rparr>, initialised_world)"
  by code_simp

theorem lifecycle_create_once_witness:
  "start_playwright (scenario_env launch_ok one_tab) initialised_world =
     (Inr (), initialised_world) \<and>
   ensure_browser_context (scenario_env launch_ok one_tab) (a_manager ''chromium'')
     initialised_world = (Inr (), initialised_world) \<and>
   async_initialize (scenario_env launch_ok one_tab) 1
     ((a_manager ''chromium'')\<lparr>async_initialize_done := True\<rparr>) initialised_world =
     (Inr (), (a_manager ''chromium'')\<lparr>async_initialize_done := True\<rparr>, initialised_world) \<and>
   start_playwright (scenario_env (fail_once timeout_message) closed_tabs) playwright_started =
     (Inr (), playwright_started) \<and>
   ensure_browser_context (scenario_env (fail_once timeout_message) closed_tabs)
     (a_manager ''chromium'') browsing = (Inr (), browsing) \<and>
   async_initialize (scenario_env (fail_once timeout_message) closed_tabs) 0
     ((a_manager ''chromium'')\<lparr>async_initialize_done := True\<rparr>) initialised_world =
     (Inr (), (a_manager ''chromium'')\<lparr>async_initialize_done := True\<rparr>, initialised_world)"
proof -
  have present: "cls_playwright initialised_world \<noteq> None"
    "cls_browser_context initialised_world \<noteq> None"
    "async_initialize_done ((a_manager ''chromium'')\<lparr>async_initialize_done := True\<rparr>)"
    by (simp_all add: initialised_world_def)
  note again = lifecycle_create_once
    [where env = "scenario_env launch_ok one_tab" and w = initialised_world and depth = 1]
  from again [where self = "a_manager ''chromium''"] present
  have a: "start_playwright (scenario_env launch_ok one_tab) initialised_world =
      (Inr (), initialised_world)"
    and b: "ensure_browser_context (scenario_env launch_ok one_tab) (a_manager ''chromium'')
      initialised_world = (Inr (), initialised_world)"
    by simp_all
  from again [where self = "(a_manager ''chromium'')\<lparr>async_initialize_done := True\<rparr>"] present
  have c: "async_initialize (scenario_env launch_ok one_tab) 1
     ((a_manager ''chromium'')\<lparr>async_initialize_done := True\<rparr>) initialised_world =
     (Inr (), (a_manager ''chromium'')\<lparr>async_initialize_done := True\<rparr>, initialised_world)"
    by simp
  note once = lifecycle_create_once
    [where env = "scenario_env launch_ok one_tab" and self = "a_manager ''chromium''"
       and ?env2.0 = "scenario_env (fail_once timeout_message) closed_tabs" and u = "()"
       and depth = 1 and ?depth2.0 = 0]
  from once [where w = not_started and ?w1.0 = playwright_started] start_playwright_run
  have d: "start_playwright (scenario_env (fail_once timeout_message) closed_tabs)
      playwright_started = (Inr (), playwright_started)"
    by simp
  from once [where w = playwright_started and ?w1.0 = browsing] ensure_browser_context_run
  have e: "ensure_browser_context (scenario_env (fail_once timeout_message) closed_tabs)
     (a_manager ''chromium'') browsing = (Inr (), browsing)"
    by simp
  from once [where w = not_started and ?w1.0 = initialised_world
      and ?self1.0 = "(a_manager ''chromium'')\<lparr>async_initialize_done := True\<rparr>"]
    async_initialize_run
  have f: "async_initialize (scenario_env (fail_once timeout_message) closed_tabs) 0
     ((a_manager ''chromium'')\<lparr>async_initialize_done := True\<rparr>) initialised_world =
     (Inr (), (a_manager ''chromium'')\<lparr>async_initialize_done := True\<rparr>, initialised_world)"
    by simp
  from a b c d e f show ?thesis by simp
qed

section \<open>The singleton\<close>

lemma construct_existing:
  "cls_instance st = Some inst \<Longrightarrow> objs st inst = Some (Initialised m) \<Longrightarrow>
     construct args st = (inst, st)"
  by (simp add: construct_def pm_new_def pm_init_def)

lemma constructions_existing:
  "cls_instance st = Some inst \<Longrightarrow> objs st inst = Some (Initialised m) \<Longrightarrow>
     constructions rest st = (replicate (length rest) inst, st)"
  by (induction rest) (simp_all add: construct_existing)

lemma construct_first:
  "cls_instance st = None \<Longrightarrow>
     fst (construct args st) = next_ref st \<and>
     cls_instance (snd (construct args st)) = Some (next_ref st) \<and>
     objs (snd (construct args st)) (next_ref st) =
       Some (Initialised (first_manager args (next_ref st)))"
  by (simp add: construct_def pm_new_def pm_init_def first_manager_def)

text \<open>
  C1. \<open>PlaywrightManager\<close> is a singleton. Starting with no instance, every construction
  of a sequence returns the reference that the first one returned, and the store after
  the whole sequence is the store after the first construction: the object has the
  \<open>browser_type\<close>, \<open>isheadless\<close> and \<open>user_response_event\<close> of the first construction,
  whatever the arguments of the later ones. Once an initialised instance exists, whatever
  its attributes have become, every construction returns it and changes nothing.
\<close>

theorem singleton:
  "(cls_instance st = None \<longrightarrow>
      constructions (args # rest) st =
        (replicate (Suc (length rest)) (next_ref st), snd (construct args st)) \<and>
      objs (snd (construct args st)) (next_ref st) =
        Some (Initialised (first_manager args (next_ref st)))) \<and>
   (cls_instance st = Some inst \<longrightarrow> objs st inst = Some (Initialised m) \<longrightarrow>
      constructions rest st = (replicate (length rest) inst, st))"
proof (intro conjI impI)
  assume none: "cls_instance st = None"
  note f = construct_first [OF none, of args]
  obtain r st1 where c: "construct args st = (r, st1)" by (cases "construct args st")
  with f have r: "r = next_ref st" and i: "cls_instance st1 = Some (next_ref st)"
    and o: "objs st1 (next_ref st) = Some (Initialised (first_manager args (next_ref st)))"
    by simp_all
  from constructions_existing [OF i o, of rest] c r
  show "constructions (args # rest) st =
        (replicate (Suc (length rest)) (next_ref st), snd (construct args st))"
    by simp
  from f show "objs (snd (construct args st)) (next_ref st) =
        Some (Initialised (first_manager args (next_ref st)))" by simp
next
  assume "cls_instance st = Some inst" "objs st inst = Some (Initialised m)"
  then show "constructions rest st = (replicate (length rest) inst, st)"
    by (rule constructions_existing)
qed

lemma constructed_instance:
  "cls_instance constructed = Some 0 \<and>
   objs constructed 0 = Some (Initialised (first_manager chromium_args 0))"
  using construct_first [of program_start chromium_args]
  by (simp add: constructed_def program_start_def)

theorem singleton_witness:
  "constructions [chromium_args, firefox_args, chromium_args] program_start =
     ([0, 0, 0], constructed) \<and>
   objs constructed 0 =
     Some (Initialised
       \<lparr>browser_type = ''chromium'', isheadless = False,
        user_response_event = \<lparr>ev_id = 1, ev_is_set = False\<rparr>, ui_manager = Some 2,
        user_response = None, async_initialize_done = False\<rparr>) \<and>
   constructions [firefox_args, firefox_args] constructed = ([0, 0], constructed)"
proof -
  have start: "cls_instance program_start = None" "next_ref program_start = 0"
    by (simp_all add: program_start_def)
  from singleton [where st = program_start and args = chromium_args
      and rest = "[firefox_args, chromium_args]", THEN conjunct1] start
  have a: "constructions [chromium_args, firefox_args, chromium_args] program_start =
      ([0, 0, 0], constructed)"
    and b: "objs constructed 0 = Some (Initialised (first_manager chromium_args 0))"
    by (simp_all add: constructed_def numeral_2_eq_2)
  from singleton [where st = constructed and inst = 0
      and m = "first_manager chromium_args 0" and rest = "[firefox_args, firefox_args]",
      THEN conjunct2] constructed_instance
  have c: "constructions [firefox_args, firefox_args] constructed = ([0, 0], constructed)"
    by (simp add: numeral_2_eq_2)
  from a b c show ?thesis by (simp add: first_manager_def chromium_args_def)
qed

section \<open>The handshake\<close>

lemma deliver_Nil [simp]: "deliver [] self = self"
  by (simp add: deliver_def)

lemma deliver_snoc: "deliver (rs @ [r]) self = receive_user_response (deliver rs self) r"
  by (simp add: deliver_def)


lemma deliver_ui_manager [simp]: "ui_manager (deliver rs self) = ui_manager self"
  by (induction rs rule: rev_induct) (simp_all add: deliver_snoc receive_user_response_def)



lemma now_record_call [simp]: "now (record_call c w) = Suc (now w)"
  by (simp add: now_def record_call_def)

lemma take_response_idle:
  "take_response env self w = (Inr result, self', w') \<Longrightarrow>
     \<not> ev_is_set (user_response_event self') \<and> user_response self' = Some [] \<and>
     ev_id (user_response_event self') = ev_id (user_response_event self)"
  by (auto simp: take_response_def Let_def split: option.splits)

lemma wait_and_take_idle:
  "wait_and_take env arriving self w = Some (Inr result, self', w') \<Longrightarrow>
     \<not> ev_is_set (user_response_event self') \<and> user_response self' = Some []"
  by (auto simp: wait_and_take_def split: if_splits dest!: take_response_idle)

lemma prompt_user_idle:
  "prompt_user env depth sch message self w = Some (Inr result, self', w') \<Longrightarrow>
     \<not> ev_is_set (user_response_event self') \<and> user_response self' = Some []"
  by (auto simp: prompt_user_def Let_def split: prod.splits sum.splits option.splits
      dest!: wait_and_take_idle)

lemma take_response_never_sets:
  "take_response env self w = (res, self', w') \<Longrightarrow>
     ev_is_set (user_response_event self') \<Longrightarrow> ev_is_set (user_response_event self)"
  by (auto simp: take_response_def Let_def split: option.splits)

lemma prompt_user_never_sets:
  "prompt_user env depth quiet message self w = Some (res, self', w') \<Longrightarrow>
     ev_is_set (user_response_event self') \<Longrightarrow> ev_is_set (user_response_event self)"
  by (auto simp: prompt_user_def wait_and_take_def quiet_def Let_def
      split: prod.splits sum.splits option.splits if_splits dest: take_response_never_sets)

lemma async_initialize_event:
  "user_response_event (fst (snd (async_initialize env depth self w))) = user_response_event self"
  by (simp add: async_initialize_def split: prod.splits sum.splits)



lemma prompt_one_answer:
  "prompt_user (scenario_env launch_ok one_tab) 1 one_answer ''Proceed?''
     (a_manager ''chromium'') browsing = Some (Inr ''yes'', idle_manager, prompted_world ''yes'')"
  by code_simp

lemma prompt_unattended:
  "prompt_user (scenario_env launch_ok one_tab) 1 quiet ''Proceed?'' unattended_manager browsing =
     Some (Inl no_ui_manager, unattended_manager, browsing)"
  by code_simp

text \<open>
  C5. After every \<open>prompt_user\<close> call that returns, \<open>user_response_event\<close> is not set and
  \<open>user_response\<close> is the empty string. \<open>receive_user_response\<close> sets the event and fills
  the mailbox. Nothing else sets the event: \<open>prompt_user\<close> itself, with no
  \<open>receive_user_response\<close> call running in between, never leaves set an event that was
  not set. Nothing else clears it: \<open>async_initialize\<close> and a further construction leave
  the event as it is, and \<open>receive_user_response\<close> leaves it set.
\<close>

theorem handshake_cycle:
  "(prompt_user env depth sch message self w = Some (Inr result, self1, w1) \<longrightarrow>
      \<not> ev_is_set (user_response_event self1) \<and> user_response self1 = Some []) \<and>
   ev_is_set (user_response_event (receive_user_response self r)) \<and>
   user_response (receive_user_response self r) = Some r \<and>
   (prompt_user env depth quiet message self w = Some (res, self2, w2) \<longrightarrow>
      ev_is_set (user_response_event self2) \<longrightarrow> ev_is_set (user_response_event self)) \<and>
   user_response_event (fst (snd (async_initialize env depth self w))) =
     user_response_event self \<and>
   (cls_instance st = Some inst \<longrightarrow> objs st inst = Some (Initialised self) \<longrightarrow>
      objs (snd (construct args st)) inst = Some (Initialised self))"
proof (intro conjI impI)
  show "\<not> ev_is_set (user_response_event self1)" and "user_response self1 = Some []"
    if "prompt_user env depth sch message self w = Some (Inr result, self1, w1)"
    using prompt_user_idle [OF that] by simp_all
  show "ev_is_set (user_response_event (receive_user_response self r))"
    and "user_response (receive_user_response self r) = Some r"
    by (simp_all add: receive_user_response_def)
  show "ev_is_set (user_response_event self)"
    if "prompt_user env depth quiet message self w = Some (res, self2, w2)"
      and "ev_is_set (user_response_event self2)"
    using that by (rule prompt_user_never_sets)
  show "user_response_event (fst (snd (async_initialize env depth self w))) =
      user_response_event self"
    by (rule async_initialize_event)
  show "objs (snd (construct args st)) inst = Some (Initialised self)"
    if "cls_instance st = Some inst" and "objs st inst = Some (Initialised self)"
    using that by (simp add: construct_existing)
qed

theorem handshake_cycle_witness:
  "\<not> ev_is_set (user_response_event (fst (snd (the
       (prompt_user (scenario_env launch_ok one_tab) 1 one_answer ''Proceed?''
          (a_manager ''chromium'') browsing))))) \<and>
   user_response (fst (snd (the
       (prompt_user (scenario_env launch_ok one_tab) 1 one_answer ''Proceed?''
          (a_manager ''chromium'') browsing)))) = Some [] \<and>
   ev_is_set (user_response_event (receive_user_response (a_manager ''chromium'') ''yes'')) \<and>
   ev_is_set (user_response_event unattended_manager) \<and>
   objs (snd (construct firefox_args constructed)) 0 =
     Some (Initialised (first_manager chromium_args 0))"
proof -
  from handshake_cycle [where env = "scenario_env launch_ok one_tab" and depth = 1
      and sch = one_answer and message = "''Proceed?''" and self = "a_manager ''chromium''"
      and w = browsing and result = "''yes''" and ?self1.0 = idle_manager
      and ?w1.0 = "prompted_world ''yes''" and r = "''yes''", THEN conjunct1]
    prompt_one_answer
  have a: "\<not> ev_is_set (user_response_event idle_manager) \<and>
      user_response idle_manager = Some []"
    by simp
  from handshake_cycle [where self = "a_manager ''chromium''" and r = "''yes''",
      THEN conjunct2, THEN conjunct1]
  have b: "ev_is_set (user_response_event (receive_user_response (a_manager ''chromium'') ''yes''))" .
  have set_after: "ev_is_set (user_response_event unattended_manager)"
    by (simp add: unattended_manager_def receive_user_response_def)
  from handshake_cycle [where env = "scenario_env launch_ok one_tab" and depth = 1
      and message = "''Proceed?''" and self = unattended_manager and w = browsing
      and res = "Inl no_ui_manager" and ?self2.0 = unattended_manager and ?w2.0 = browsing,
      THEN conjunct2, THEN conjunct2, THEN conjunct2, THEN conjunct1]
    prompt_unattended set_after
  have c: "ev_is_set (user_response_event unattended_manager)" by simp
  from handshake_cycle [where st = constructed and inst = 0
      and self = "first_manager chromium_args 0" and args = firefox_args,
      THEN conjunct2, THEN conjunct2, THEN conjunct2, THEN conjunct2, THEN conjunct2]
    constructed_instance
  have d: "objs (snd (construct firefox_args constructed)) 0 =
      Some (Initialised (first_manager chromium_args 0))"
    by simp
  from a b c d show ?thesis unfolding prompt_one_answer by simp
qed




section \<open>Durations and the pause\<close>

lemma bit_length_bound: "0 < n \<Longrightarrow> 0 < bit_length n \<and> 2 ^ (bit_length n - 1) \<le> n"
proof (induction n rule: bit_length.induct)
  case (1 n)
  show ?case
  proof (cases "n div 2 \<le> 0")
    case True
    with "1.prems" have "n = 1" by linarith
    then show ?thesis by (simp add: bit_length.simps [of 1] bit_length.simps [of 0])
  next
    case False
    with "1.IH" "1.prems" have ih: "0 < bit_length (n div 2)"
      "2 ^ (bit_length (n div 2) - 1) \<le> n div 2" by simp_all
    have bl: "bit_length n = Suc (bit_length (n div 2))"
      using "1.prems" by (subst bit_length.simps) simp
    have "(2::int) ^ (bit_length n - 1) = 2 * 2 ^ (bit_length (n div 2) - 1)"
      using ih(1) bl by (cases "bit_length (n div 2)") simp_all
    also have "\<dots> \<le> 2 * (n div 2)" using ih(2) by simp
    also have "\<dots> \<le> n" by linarith
    finally show ?thesis using bl by simp
  qed
qed

lemma round_half_even_pos: "0 < n \<Longrightarrow> 0 < round_half_even n"
proof -
  assume pos: "0 < n"
  show ?thesis
  proof (cases "bit_length n \<le> 53")
    case True
    with pos show ?thesis by (simp add: round_half_even_def)
  next
    case False
    have "(2::int) ^ (bit_length n - 53) \<le> 2 ^ (bit_length n - 1)"
      using False by (intro power_increasing) simp_all
    also have "\<dots> \<le> n" using bit_length_bound [OF pos] by simp
    finally have q: "0 < n div 2 ^ (bit_length n - 53)"
      by (simp add: pos_imp_zdiv_pos_iff)
    then have "0 < (n div 2 ^ (bit_length n - 53) + 1) * 2 ^ (bit_length n - 53)"
      and "0 < n div 2 ^ (bit_length n - 53) * 2 ^ (bit_length n - 53)"
      by (simp_all add: zero_less_mult_iff)
    then show ?thesis using False by (simp add: round_half_even_def Let_def)
  qed
qed

lemma round_half_even_nonneg: "0 \<le> n \<Longrightarrow> 0 \<le> round_half_even n"
proof (cases "n = 0")
  case True
  then show ?thesis by (simp add: round_half_even_def bit_length.simps [of 0])
next
  case False
  assume "0 \<le> n"
  with False have "0 < n" by simp
  from round_half_even_pos [OF this] show ?thesis by simp
qed

lemma py_float_sign: "py_float d = Inr s \<Longrightarrow> float_lt_zero s \<longleftrightarrow> is_negative d"
proof (cases d)
  case (PyInt i)
  assume a: "py_float d = Inr s"
  show ?thesis
  proof (cases "i < 0")
    case True
    then have "0 < round_half_even \<bar>i\<bar>" by (intro round_half_even_pos) simp
    with a PyInt True show ?thesis by (auto simp: Let_def split: if_splits)
  next
    case False
    then have "0 \<le> round_half_even \<bar>i\<bar>" by (intro round_half_even_nonneg) simp
    with a PyInt False show ?thesis by (auto simp: Let_def split: if_splits)
  qed
next
  case (PyFloat x)
  assume "py_float d = Inr s"
  with PyFloat show ?thesis by simp
qed

lemma nonnegative_not_negative: "is_nonnegative d \<Longrightarrow> \<not> is_negative d"
  by (induction d rule: is_nonnegative.induct) simp_all


lemma pause_handler_wraps: "is_exception e \<Longrightarrow> is_value_error (pause_handler e)"
  by (cases e) simp_all





text \<open>
  C7, as stated, fails: \<open>2 ^ 1024\<close> is a nonnegative \<^verbatim>\<open>int\<close>, \<^verbatim>\<open>float\<close> raises
  \<^verbatim>\<open>OverflowError\<close> on it, and \<open>pause_flow\<close> raises a \<^verbatim>\<open>ValueError\<close> without sleeping.
\<close>

theorem pause_flow_huge_int:
  "is_nonnegative (PyInt (2 ^ 1024)) \<and>
   pause_flow sleep_completes float_text (PyInt (2 ^ 1024)) =
     (Inl (PyExc ValueError ''Error while pausing: int too large to convert to float''), [])"
  by code_simp

text \<open>
  C7, amended. For every nonnegative \<^verbatim>\<open>int\<close> or \<^verbatim>\<open>float\<close> duration that \<^verbatim>\<open>float\<close>
  converts, to \<open>seconds\<close>, \<open>pause_flow\<close> sleeps once, for \<open>seconds\<close>, and when the sleep
  completes it returns \<^verbatim>\<open>"Paused for {seconds} seconds."\<close>, with \<^verbatim>\<open>"second."\<close> exactly
  when \<open>seconds\<close> equals 1.
\<close>

theorem pause_flow_reports_completion:
  assumes "is_nonnegative duration"
    and "py_float duration = Inr seconds"
    and "sleep seconds = None"
  shows "pause_flow sleep fmt duration =
           (Inr (''Paused for '' @ fmt seconds @
                   (if seconds = Finite 1 then '' second.'' else '' seconds.'')), [seconds])"
proof -
  from assms(1) have "\<not> is_negative duration" by (rule nonnegative_not_negative)
  with py_float_sign [OF assms(2)] have "\<not> float_lt_zero seconds" by simp
  with assms(2,3) show ?thesis by (simp add: pause_flow_def)
qed

lemma float_of_small_ints:
  "py_float (PyInt 5) = Inr (Finite 5) \<and> py_float (PyInt 1) = Inr (Finite 1) \<and>
   py_float (PyInt (- 3)) = Inr (Finite (- 3))"
  by code_simp

theorem pause_flow_reports_completion_witness:
  "pause_flow sleep_completes float_text (PyInt 5) =
     (Inr ''Paused for 5.0 seconds.'', [Finite 5]) \<and>
   pause_flow sleep_completes float_text (PyInt 1) =
     (Inr ''Paused for 1.0 second.'', [Finite 1]) \<and>
   pause_flow sleep_completes float_text (PyFloat (Finite (1 / 2))) =
     (Inr ''Paused for 0.5 seconds.'', [Finite (1 / 2)])"
proof -
  have s: "sleep_completes x = None" for x by (simp add: sleep_completes_def)
  from pause_flow_reports_completion [where duration = "PyInt 5" and seconds = "Finite 5"
      and sleep = sleep_completes and fmt = float_text] float_of_small_ints s
  have a: "pause_flow sleep_completes float_text (PyInt 5) =
     (Inr ''Paused for 5.0 seconds.'', [Finite 5])"
    by (simp add: float_text_def)
  from pause_flow_reports_completion [where duration = "PyInt 1" and seconds = "Finite 1"
      and sleep = sleep_completes and fmt = float_text] float_of_small_ints s
  have b: "pause_flow sleep_completes float_text (PyInt 1) =
     (Inr ''Paused for 1.0 second.'', [Finite 1])"
    by (simp add: float_text_def)
  from pause_flow_reports_completion [where duration = "PyFloat (Finite (1 / 2))"
      and seconds = "Finite (1 / 2)" and sleep = sleep_completes and fmt = float_text] s
  have c: "pause_flow sleep_completes float_text (PyFloat (Finite (1 / 2))) =
     (Inr ''Paused for 0.5 seconds.'', [Finite (1 / 2)])"
    by (simp add: float_text_def)
  from a b c show ?thesis by simp
qed




end
